theory Spec2Isabelle
  imports Complex_Main "HOL-Library.Log_Nat"
begin

section \<open>Python numbers\<close>

text \<open>
  The device divides the demand percent, an int or a float, by 100 with Python's
  true division, which yields a binary64 float, multiplies and subtracts in
  binary64 and converts back with \<^verbatim>\<open>int()\<close>. The floats are modelled by the
  rationals they denote, together with the two infinities and NaN. Every
  operation computes the exact rational result and rounds it to the nearest
  binary64 value, ties to even (53 significant bits, gradual underflow below
  \<open>2^-1022\<close>, overflow at \<open>2^1024\<close>). The sign of a zero is not tracked: no
  operation of the device depends on it.
\<close>

text \<open>
  What a call can raise. The first four are instances of \<^verbatim>\<open>Exception\<close>;
  \<^verbatim>\<open>asyncio.CancelledError\<close> and the other direct descendants of
  \<^verbatim>\<open>BaseException\<close> (\<^verbatim>\<open>KeyboardInterrupt\<close>, \<^verbatim>\<open>SystemExit\<close>) are not, and
  a handler \<^verbatim>\<open>except Exception\<close> lets them through.
\<close>

datatype py_exception =
    ZeroDivisionError
  | OverflowError
  | ValueError
  | OtherException string
  | CancelledError
  | OtherBaseException string

fun is_Exception :: "py_exception \<Rightarrow> bool" where
  "is_Exception ZeroDivisionError = True"
| "is_Exception OverflowError = True"
| "is_Exception ValueError = True"
| "is_Exception (OtherException name) = True"
| "is_Exception CancelledError = False"
| "is_Exception (OtherBaseException name) = False"

datatype pyfloat = Finite rat | PosInf | NegInf | NaN

definition pow2 :: "int \<Rightarrow> rat" where
  "pow2 k = (if 0 \<le> k then 2 ^ nat k else 1 / 2 ^ nat (- k))"

text \<open>For \<open>x > 0\<close>, the integer \<open>e\<close> with \<open>2^e \<le> x < 2^(e+1)\<close>.\<close>

definition floor_log2 :: "rat \<Rightarrow> int" where
  "floor_log2 x = (if 1 \<le> x then bitlen \<lfloor>x\<rfloor> - 1 else - bitlen (\<lceil>1 / x\<rceil> - 1))"

definition round_half_even :: "rat \<Rightarrow> int" where
  "round_half_even q =
     (let f = \<lfloor>q\<rfloor>; r = q - of_int f
      in if r < 1 / 2 then f else if 1 / 2 < r then f + 1 else if even f then f else f + 1)"

text \<open>Rounding to 53 significant bits, the exponent bounded below only.\<close>

definition round53 :: "rat \<Rightarrow> rat" where
  "round53 x =
     (if x = 0 then 0
      else let e = max (floor_log2 \<bar>x\<bar>) (- 1022); u = pow2 (e - 52)
           in of_int (round_half_even (x / u)) * u)"

definition round64 :: "rat \<Rightarrow> pyfloat" where
  "round64 x =
     (let r = round53 x
      in if 2 ^ 1024 \<le> r then PosInf else if r \<le> - (2 ^ 1024) then NegInf else Finite r)"

text \<open>\<^verbatim>\<open>a / b\<close> on two ints: the quotient correctly rounded, or an exception.\<close>

definition int_truediv :: "int \<Rightarrow> int \<Rightarrow> py_exception + pyfloat" where
  "int_truediv a b =
     (if b = 0 then Inl ZeroDivisionError
      else case round64 (of_int a / of_int b) of
             Finite r \<Rightarrow> Inr (Finite r)
           | _ \<Rightarrow> Inl OverflowError)"

text \<open>The implicit conversion of an int operand in mixed arithmetic.\<close>

definition float_of_int :: "int \<Rightarrow> py_exception + pyfloat" where
  "float_of_int n =
     (case round64 (of_int n) of
        Finite r \<Rightarrow> Inr (Finite r)
      | _ \<Rightarrow> Inl OverflowError)"

fun float_mul :: "pyfloat \<Rightarrow> pyfloat \<Rightarrow> pyfloat" where
  "float_mul (Finite a) (Finite b) = round64 (a * b)"
| "float_mul NaN _ = NaN"
| "float_mul _ NaN = NaN"
| "float_mul (Finite a) PosInf = (if a = 0 then NaN else if 0 < a then PosInf else NegInf)"
| "float_mul (Finite a) NegInf = (if a = 0 then NaN else if 0 < a then NegInf else PosInf)"
| "float_mul PosInf (Finite b) = (if b = 0 then NaN else if 0 < b then PosInf else NegInf)"
| "float_mul NegInf (Finite b) = (if b = 0 then NaN else if 0 < b then NegInf else PosInf)"
| "float_mul PosInf PosInf = PosInf"
| "float_mul PosInf NegInf = NegInf"
| "float_mul NegInf PosInf = NegInf"
| "float_mul NegInf NegInf = PosInf"

fun float_add :: "pyfloat \<Rightarrow> pyfloat \<Rightarrow> pyfloat" where
  "float_add (Finite a) (Finite b) = round64 (a + b)"
| "float_add NaN _ = NaN"
| "float_add _ NaN = NaN"
| "float_add PosInf NegInf = NaN"
| "float_add NegInf PosInf = NaN"
| "float_add PosInf _ = PosInf"
| "float_add NegInf _ = NegInf"
| "float_add _ PosInf = PosInf"
| "float_add _ NegInf = NegInf"

fun float_neg :: "pyfloat \<Rightarrow> pyfloat" where
  "float_neg (Finite a) = Finite (- a)"
| "float_neg PosInf = NegInf"
| "float_neg NegInf = PosInf"
| "float_neg NaN = NaN"

definition float_sub :: "pyfloat \<Rightarrow> pyfloat \<Rightarrow> pyfloat" where
  "float_sub x y = float_add x (float_neg y)"

text \<open>\<^verbatim>\<open>x / y\<close> on two floats: a zero divisor raises, whatever the dividend.\<close>

fun float_div :: "pyfloat \<Rightarrow> pyfloat \<Rightarrow> py_exception + pyfloat" where
  "float_div x (Finite b) =
     (if b = 0 then Inl ZeroDivisionError
      else case x of
             Finite a \<Rightarrow> Inr (round64 (a / b))
           | PosInf \<Rightarrow> Inr (if 0 < b then PosInf else NegInf)
           | NegInf \<Rightarrow> Inr (if 0 < b then NegInf else PosInf)
           | NaN \<Rightarrow> Inr NaN)"
| "float_div NaN y = Inr NaN"
| "float_div x NaN = Inr NaN"
| "float_div (Finite a) y = Inr (Finite 0)"
| "float_div x y = Inr NaN"

definition bind :: "py_exception + 'a \<Rightarrow> ('a \<Rightarrow> py_exception + 'b) \<Rightarrow> py_exception + 'b" where
  "bind m f = (case m of Inl e \<Rightarrow> Inl e | Inr x \<Rightarrow> f x)"

text \<open>\<^verbatim>\<open>x * n\<close>, \<open>n - x\<close> and \<open>n + x\<close> for a float \<open>x\<close> and an int \<open>n\<close>.\<close>

definition float_mul_int :: "pyfloat \<Rightarrow> int \<Rightarrow> py_exception + pyfloat" where
  "float_mul_int x n = bind (float_of_int n) (\<lambda>y. Inr (float_mul x y))"

definition int_sub_float :: "int \<Rightarrow> pyfloat \<Rightarrow> py_exception + pyfloat" where
  "int_sub_float n x = bind (float_of_int n) (\<lambda>y. Inr (float_sub y x))"

definition int_add_float :: "int \<Rightarrow> pyfloat \<Rightarrow> py_exception + pyfloat" where
  "int_add_float n x = bind (float_of_int n) (\<lambda>y. Inr (float_add y x))"

text \<open>Truncation toward zero.\<close>

definition py_trunc :: "rat \<Rightarrow> int" where
  "py_trunc r = (if 0 \<le> r then \<lfloor>r\<rfloor> else \<lceil>r\<rceil>)"

text \<open>\<^verbatim>\<open>int(x)\<close> on a float.\<close>

fun py_int :: "pyfloat \<Rightarrow> py_exception + int" where
  "py_int (Finite r) = Inr (py_trunc r)"
| "py_int PosInf = Inl OverflowError"
| "py_int NegInf = Inl OverflowError"
| "py_int NaN = Inl ValueError"

text \<open>
  A number: an int or a float. \<^verbatim>\<open>x / n\<close> for a number \<open>x\<close> and an int \<open>n\<close>,
  and the test \<^verbatim>\<open>x == 0\<close>.
\<close>

datatype py_number = PyInt int | PyFloat pyfloat

definition py_truediv :: "py_number \<Rightarrow> int \<Rightarrow> py_exception + pyfloat" where
  "py_truediv x n =
     (case x of
        PyInt a \<Rightarrow> int_truediv a n
      | PyFloat y \<Rightarrow> bind (float_of_int n) (\<lambda>m. float_div y m))"

fun py_eq_zero :: "py_number \<Rightarrow> bool" where
  "py_eq_zero (PyInt n) = (n = 0)"
| "py_eq_zero (PyFloat (Finite r)) = (r = 0)"
| "py_eq_zero (PyFloat x) = False"

section \<open>The device and its collaborators\<close>

datatype HVACMode = OFF | HEAT | COOL | HEAT_COOL | AUTO | DRY | FAN_ONLY

datatype HVACAction = HVACAction_OFF | HVACAction_HEATING | HVACAction_COOLING | HVACAction_IDLE

datatype log_level = DEBUG | INFO | WARNING | ERROR

datatype log_arg =
    ArgStr string
  | ArgId "string option"
  | ArgInt int
  | ArgNum py_number
  | ArgBool bool
  | ArgMode HVACMode
  | ArgExc py_exception

datatype log_record = LogRecord log_level string "log_arg list"

datatype service_value = VStr string | VNum py_number

datatype service_call = ServiceCall string string "(string \<times> service_value) list"

text \<open>
  The environment manager is a collaborator. Its temperatures are optional
  (\<^verbatim>\<open>None\<close> when a sensor or a setpoint is unavailable); \<open>attr\<close> is
  \<^verbatim>\<open>getattr(environment, name)\<close> for the setpoint attributes it defines.
\<close>

record EnvironmentManager =
  cur_temp :: "rat option"
  attr :: "string \<Rightarrow> rat option"

text \<open>
  The power manager is a collaborator; the device reads one attribute of it, the
  demand percent: an int or a float, which the device neither converts nor
  checks.
\<close>

record HvacPowerManager =
  hvac_power_percent :: py_number

text \<open>
  The state: the attributes of the device that the operations read, the power
  manager, which they update, and the two observable traces, the service calls
  issued to Home Assistant and the records written to the logger, oldest first.
\<close>

record state =
  hvac_mode :: HVACMode
  is_active :: bool
  valve_entity_id :: "string option"
  fan_entity_id :: "string option"
  environment :: EnvironmentManager
  is_range_mode :: bool
  base_target_env_attr :: string
  hvac_power :: HvacPowerManager
  service_calls :: "service_call list"
  logged :: "log_record list"

text \<open>
  \<^verbatim>\<open>hvac_power.update_hvac_power(self.strategy, attr, action)\<close> is not part of this
  file. It is a parameter: any function from the attribute name, the action and
  the current state to the new state of the power manager. It is taken to return
  normally.
\<close>

type_synonym power_update = "string \<Rightarrow> HVACAction \<Rightarrow> state \<Rightarrow> HvacPowerManager"

text \<open>
  \<^verbatim>\<open>hass.services.async_call\<close> is a parameter too: given the calls issued so
  far and the call being made, it returns normally (\<open>None\<close>) or raises: an
  instance of \<^verbatim>\<open>Exception\<close>, or the cancellation of the awaiting task or
  another \<^verbatim>\<open>BaseException\<close>. The call counts as issued in every case.
\<close>

type_synonym transport = "service_call list \<Rightarrow> service_call \<Rightarrow> py_exception option"

type_synonym 'a result = "(py_exception + 'a) \<times> state"

definition VALVE_DOMAIN :: string where "VALVE_DOMAIN = ''valve''"
definition FAN_DOMAIN :: string where "FAN_DOMAIN = ''fan''"
definition ATTR_ENTITY_ID :: string where "ATTR_ENTITY_ID = ''entity_id''"
definition class_name :: string where "class_name = ''CustomPositionValveWithFanDevice''"

definition OFF_POSITION :: int where "OFF_POSITION = 55"
definition COOLING_MIN_POSITION :: int where "COOLING_MIN_POSITION = 50"
definition COOLING_MAX_POSITION :: int where "COOLING_MAX_POSITION = 20"
definition HEATING_MIN_POSITION :: int where "HEATING_MIN_POSITION = 60"
definition HEATING_MAX_POSITION :: int where "HEATING_MAX_POSITION = 100"

definition write_log :: "log_level \<Rightarrow> string \<Rightarrow> log_arg list \<Rightarrow> state \<Rightarrow> state" where
  "write_log lvl msg args s = s\<lparr>logged := logged s @ [LogRecord lvl msg args]\<rparr>"

definition async_call :: "transport \<Rightarrow> service_call \<Rightarrow> state \<Rightarrow> unit result" where
  "async_call hass c s =
     (let s' = s\<lparr>service_calls := service_calls s @ [c]\<rparr>
      in case hass (service_calls s) c of
           None \<Rightarrow> (Inr (), s')
         | Some e \<Rightarrow> (Inl e, s'))"

definition target_env_attr :: "state \<Rightarrow> string" where
  "target_env_attr s =
     (if is_range_mode s then ''_target_temp_low'' else base_target_env_attr s)"

definition hvac_action :: "state \<Rightarrow> HVACAction \<times> state" where
  "hvac_action s =
     (let s1 = write_log DEBUG
                 ''CustomPositionValveWithFanDevice hvac_action. is_active: %s, hvac_mode: %s''
                 [ArgBool (is_active s), ArgMode (hvac_mode s)] s
      in if hvac_mode s1 = OFF then (HVACAction_OFF, s1)
         else if is_active s1 \<and> hvac_mode s1 = HEAT then (HVACAction_HEATING, s1)
         else if is_active s1 \<and> hvac_mode s1 = COOL then (HVACAction_COOLING, s1)
         else (HVACAction_IDLE, s1))"

definition update_hvac_power :: "power_update \<Rightarrow> string \<Rightarrow> HVACAction \<Rightarrow> state \<Rightarrow> state" where
  "update_hvac_power upd name action s = s\<lparr>hvac_power := upd name action s\<rparr>"

definition calculate_valve_position :: "power_update \<Rightarrow> state \<Rightarrow> int result" where
  "calculate_valve_position upd s =
     (if hvac_mode s = OFF then (Inr OFF_POSITION, s)
      else
        let current_temp = cur_temp (environment s);
            target_temp = attr (environment s) (target_env_attr s)
        in if current_temp = None \<or> target_temp = None
           then (Inr OFF_POSITION,
                 write_log WARNING ''Temperature values not available, using default position'' [] s)
           else
             let temp_difference = \<bar>the current_temp - the target_temp\<bar>;
                 name = target_env_attr s;
                 (action, s1) = hvac_action s;
                 s2 = update_hvac_power upd name action s1
             in (bind (py_truediv (hvac_power_percent (hvac_power s2)) 100)
                   (\<lambda>normalized_diff.
                      if hvac_mode s2 = COOL then
                        let position_range = COOLING_MIN_POSITION - COOLING_MAX_POSITION
                        in bind (float_mul_int normalized_diff position_range) (\<lambda>scaled.
                           bind (int_sub_float COOLING_MIN_POSITION scaled) (\<lambda>position.
                           bind (py_int position) (\<lambda>i.
                           Inr (max COOLING_MAX_POSITION (min i COOLING_MIN_POSITION)))))
                      else if hvac_mode s2 = HEAT then
                        let position_range = HEATING_MAX_POSITION - HEATING_MIN_POSITION
                        in bind (float_mul_int normalized_diff position_range) (\<lambda>scaled.
                           bind (int_add_float HEATING_MIN_POSITION scaled) (\<lambda>position.
                           bind (py_int position) (\<lambda>i.
                           Inr (max HEATING_MIN_POSITION (min i HEATING_MAX_POSITION)))))
                      else Inr OFF_POSITION),
                 s2))"

definition calculate_fan_speed :: "state \<Rightarrow> py_number" where
  "calculate_fan_speed s =
     (if hvac_mode s = OFF then PyInt 0 else hvac_power_percent (hvac_power s))"

definition async_set_valve_position :: "transport \<Rightarrow> int \<Rightarrow> state \<Rightarrow> unit result" where
  "async_set_valve_position hass position s =
     (let s1 = write_log INFO ''%s. Setting valve position to %s%% for entity %s''
                 [ArgStr class_name, ArgInt position, ArgId (valve_entity_id s)] s
      in case valve_entity_id s1 of
           None \<Rightarrow> (Inr (), s1)
         | Some valve \<Rightarrow>
             (case async_call hass
                     (ServiceCall VALVE_DOMAIN ''set_valve_position''
                        [(ATTR_ENTITY_ID, VStr valve), (''position'', VNum (PyInt position))]) s1 of
                (Inr u, s2) \<Rightarrow>
                  (Inr (), write_log DEBUG ''Successfully set valve position to %s%%''
                             [ArgInt position] s2)
              | (Inl e, s2) \<Rightarrow>
                  if is_Exception e
                  then (Inr (), write_log ERROR
                                  ''Error setting valve position for entity %s to %s%%. Error: %s''
                                  [ArgId (valve_entity_id s2), ArgInt position, ArgExc e] s2)
                  else (Inl e, s2)))"

definition async_set_fan_speed :: "transport \<Rightarrow> py_number \<Rightarrow> state \<Rightarrow> unit result" where
  "async_set_fan_speed hass speed_percent s =
     (let s1 = write_log INFO ''%s. Setting fan speed to %s%% for entity %s''
                 [ArgStr class_name, ArgNum speed_percent, ArgId (fan_entity_id s)] s
      in case fan_entity_id s1 of
           None \<Rightarrow> (Inr (), s1)
         | Some fan \<Rightarrow>
             (case (if py_eq_zero speed_percent
                    then async_call hass
                           (ServiceCall FAN_DOMAIN ''turn_off'' [(ATTR_ENTITY_ID, VStr fan)]) s1
                    else async_call hass
                           (ServiceCall FAN_DOMAIN ''set_percentage''
                              [(ATTR_ENTITY_ID, VStr fan), (''percentage'', VNum speed_percent)]) s1) of
                (Inr u, s2) \<Rightarrow>
                  (Inr (), write_log DEBUG ''Successfully set fan speed to %s%%''
                             [ArgNum speed_percent] s2)
              | (Inl e, s2) \<Rightarrow>
                  if is_Exception e
                  then (Inr (), write_log ERROR
                                  ''Error setting fan speed for entity %s to %s%%. Error: %s''
                                  [ArgId (fan_entity_id s2), ArgNum speed_percent, ArgExc e] s2)
                  else (Inl e, s2)))"

definition async_turn_on :: "transport \<Rightarrow> power_update \<Rightarrow> state \<Rightarrow> unit result" where
  "async_turn_on hass upd s =
     (let s1 = write_log INFO ''%s. Setting valve position and fan speed for entities %s, %s''
                 [ArgStr class_name, ArgId (valve_entity_id s), ArgId (fan_entity_id s)] s
      in if valve_entity_id s1 = None \<or> fan_entity_id s1 = None
         then (Inr (), write_log WARNING ''Valve or fan entity ID is None'' [] s1)
         else
           case calculate_valve_position upd s1 of
             (Inl e, s2) \<Rightarrow> (Inl e, s2)
           | (Inr valve_position, s2) \<Rightarrow>
               (case async_set_valve_position hass valve_position s2 of
                  (Inl e, s3) \<Rightarrow> (Inl e, s3)
                | (Inr u, s3) \<Rightarrow>
                    let fan_speed = calculate_fan_speed s3
                    in async_set_fan_speed hass fan_speed s3))"

definition async_turn_off :: "transport \<Rightarrow> power_update \<Rightarrow> state \<Rightarrow> unit result" where
  "async_turn_off hass upd s =
     (let s1 = write_log INFO ''%s. Turning off valve and fan for entities %s, %s''
                 [ArgStr class_name, ArgId (valve_entity_id s), ArgId (fan_entity_id s)] s
      in case (if valve_entity_id s1 \<noteq> None
               then async_set_valve_position hass OFF_POSITION s1
               else (Inr (), s1)) of
           (Inl e, s2) \<Rightarrow> (Inl e, s2)
         | (Inr u, s2) \<Rightarrow>
             (case (if fan_entity_id s2 \<noteq> None
                    then async_set_fan_speed hass (PyInt 0) s2
                    else (Inr (), s2)) of
                (Inl e, s3) \<Rightarrow> (Inl e, s3)
              | (Inr u, s3) \<Rightarrow>
                  (Inr (), update_hvac_power upd (target_env_attr s3) HVACAction_OFF s3)))"

section \<open>Quantities of the statements\<close>

text \<open>The binary exponent at which \<open>round53\<close> rounds a nonzero number.\<close>

definition expo :: "rat \<Rightarrow> int" where
  "expo x = max (floor_log2 \<bar>x\<bar>) (- 1022)"

text \<open>The rational a number denotes, unless it is an infinity or NaN.\<close>

fun number_value :: "py_number \<Rightarrow> rat option" where
  "number_value (PyInt n) = Some (of_int n)"
| "number_value (PyFloat (Finite r)) = Some r"
| "number_value (PyFloat x) = None"



definition heat_tail :: "pyfloat \<Rightarrow> py_exception + int" where
  "heat_tail normalized_diff =
     bind (float_mul_int normalized_diff 40) (\<lambda>scaled.
     bind (int_add_float 60 scaled) (\<lambda>position.
     bind (py_int position) (\<lambda>i. Inr (max 60 (min i 100)))))"

definition heat_value :: "py_number \<Rightarrow> py_exception + int" where
  "heat_value x = bind (py_truediv x 100) heat_tail"


definition heat_float :: "rat \<Rightarrow> rat" where
  "heat_float v = round53 (60 + round53 (round53 (v / 100) * 40))"


definition heat_rounded :: "rat \<Rightarrow> int" where
  "heat_rounded v = max 60 (min (py_trunc (heat_float v)) 100)"


definition heat_interpolation :: "rat \<Rightarrow> int" where
  "heat_interpolation v = max 60 (min (py_trunc (60 + v / 100 * 40)) 100)"

text \<open>
  Both temperatures are present; the state after the demand source was refreshed
  (the action passed to it is \<^verbatim>\<open>self.hvac_action\<close>, whose evaluation logs);
  the demand percent read after the refresh.
\<close>

definition temperatures_known :: "state \<Rightarrow> bool" where
  "temperatures_known s \<longleftrightarrow>
     cur_temp (environment s) \<noteq> None \<and> attr (environment s) (target_env_attr s) \<noteq> None"

definition refreshed :: "power_update \<Rightarrow> state \<Rightarrow> state" where
  "refreshed upd s =
     update_hvac_power upd (target_env_attr s) (fst (hvac_action s)) (snd (hvac_action s))"

definition demand :: "power_update \<Rightarrow> state \<Rightarrow> py_number" where
  "demand upd s = hvac_power_percent (hvac_power (refreshed upd s))"

text \<open>
  The service calls the device issues, the calls of one \<^verbatim>\<open>turn_off\<close>, and
  the state an actuator was last commanded to: the last call issued to its domain.
\<close>

definition set_valve_position_call :: "string \<Rightarrow> int \<Rightarrow> service_call" where
  "set_valve_position_call valve position =
     ServiceCall VALVE_DOMAIN ''set_valve_position''
       [(ATTR_ENTITY_ID, VStr valve), (''position'', VNum (PyInt position))]"

definition fan_turn_off_call :: "string \<Rightarrow> service_call" where
  "fan_turn_off_call fan = ServiceCall FAN_DOMAIN ''turn_off'' [(ATTR_ENTITY_ID, VStr fan)]"

definition fan_set_percentage_call :: "string \<Rightarrow> py_number \<Rightarrow> service_call" where
  "fan_set_percentage_call fan speed_percent =
     ServiceCall FAN_DOMAIN ''set_percentage''
       [(ATTR_ENTITY_ID, VStr fan), (''percentage'', VNum speed_percent)]"

definition fan_call :: "string \<Rightarrow> py_number \<Rightarrow> service_call" where
  "fan_call fan speed_percent =
     (if py_eq_zero speed_percent then fan_turn_off_call fan
      else fan_set_percentage_call fan speed_percent)"

definition turn_off_calls :: "state \<Rightarrow> service_call list" where
  "turn_off_calls s =
     (case valve_entity_id s of None \<Rightarrow> [] | Some valve \<Rightarrow> [set_valve_position_call valve 55]) @
     (case fan_entity_id s of None \<Rightarrow> [] | Some fan \<Rightarrow> [fan_turn_off_call fan])"

fun call_domain :: "service_call \<Rightarrow> string" where
  "call_domain (ServiceCall domain_name service data) = domain_name"

definition commanded :: "string \<Rightarrow> state \<Rightarrow> service_call option" where
  "commanded domain_name s =
     (let cs = filter (\<lambda>c. call_domain c = domain_name) (service_calls s)
      in if cs = [] then None else Some (last cs))"

text \<open>
  The exception that a setter lets through when it makes the call \<open>c\<close> after the
  calls \<open>history\<close>: the one the call raises, unless the handler catches it.
\<close>

definition propagated :: "transport \<Rightarrow> service_call list \<Rightarrow> service_call \<Rightarrow> py_exception option" where
  "propagated hass history c =
     (case hass history c of
        None \<Rightarrow> None
      | Some e \<Rightarrow> if is_Exception e then None else Some e)"

text \<open>
  The outcome of making the calls \<open>cs\<close> in order after the calls \<open>history\<close>,
  each inside its handler: a normal return or the first exception let through,
  together with the calls issued by then.
\<close>

fun issued ::
  "transport \<Rightarrow> service_call list \<Rightarrow> service_call list \<Rightarrow> (py_exception + unit) \<times> service_call list"
where
  "issued hass history [] = (Inr (), history)"
| "issued hass history (c # cs) =
     (case propagated hass history c of
        None \<Rightarrow> issued hass (history @ [c]) cs
      | Some e \<Rightarrow> (Inl e, history @ [c]))"

section \<open>Concrete inputs\<close>

text \<open>
  A cooling device with both actuators configured and both temperatures known, an
  environment without temperatures, a demand source that reports a fixed percent,
  a transport that always succeeds, one that always fails with an instance of
  \<^verbatim>\<open>Exception\<close> and one whose calls are cancelled. Two floats next to a
  multiple of five: \<open>10 + 2^-49\<close>, printed 10.000000000000002, and \<open>5 - 2^-50\<close>,
  printed 4.999999999999999.
\<close>

definition example_environment :: EnvironmentManager where
  "example_environment = \<lparr>cur_temp = Some 25, attr = (\<lambda>name. Some 20)\<rparr>"

definition no_environment :: EnvironmentManager where
  "no_environment = \<lparr>cur_temp = None, attr = (\<lambda>name. None)\<rparr>"

definition example_state :: state where
  "example_state =
     \<lparr>hvac_mode = COOL, is_active = True,
      valve_entity_id = Some ''valve.zone'', fan_entity_id = Some ''fan.zone'',
      environment = example_environment, is_range_mode = False,
      base_target_env_attr = ''_target_temp'',
      hvac_power = \<lparr>hvac_power_percent = PyInt 80\<rparr>,
      service_calls = [], logged = []\<rparr>"

definition fixed_demand :: "py_number \<Rightarrow> power_update" where
  "fixed_demand x = (\<lambda>name action s. \<lparr>hvac_power_percent = x\<rparr>)"

definition reliable :: transport where
  "reliable = (\<lambda>history c. None)"

definition failing :: transport where
  "failing = (\<lambda>history c. Some (OtherException ''HomeAssistantError''))"

definition cancelling :: transport where
  "cancelling = (\<lambda>history c. Some CancelledError)"



section \<open>Powers of two and the binary exponent\<close>

lemma pow2_powi: "pow2 k = 2 powi k"
  by (simp add: pow2_def power_int_def power_inverse inverse_eq_divide power_one_over)

lemma pow2_pos: "0 < pow2 k"
  by (simp add: pow2_powi)

lemma pow2_add: "pow2 (a + b) = pow2 a * pow2 b"
  by (simp add: pow2_powi power_int_add)

lemma pow2_strict_mono: "a < b \<Longrightarrow> pow2 a < pow2 b"
  by (simp add: pow2_powi power_int_strict_increasing)

lemma pow2_mono: "a \<le> b \<Longrightarrow> pow2 a \<le> pow2 b"
  using pow2_strict_mono [of a b] by (cases "a = b") auto

lemma pow2_less_iff: "pow2 a < pow2 b \<longleftrightarrow> a < b"
  using pow2_strict_mono [of a b] pow2_mono [of b a] by (auto simp add: not_le [symmetric])

lemma floor_log2_bounds:
  assumes "0 < x"
  shows "pow2 (floor_log2 x) \<le> x \<and> x < pow2 (floor_log2 x + 1)"
proof (cases "1 \<le> x")
  case True
  define n where "n = \<lfloor>x\<rfloor>"
  have n1: "1 \<le> n" using True by (simp add: n_def le_floor_iff)
  then have npos: "0 < n" by simp
  have b1: "1 \<le> bitlen n" using npos by (simp add: bitlen_alt_def)
  have fl: "floor_log2 x = bitlen n - 1"
    using True by (simp add: floor_log2_def n_def)
  from bitlen_bounds [OF npos]
  have lo: "2 ^ nat (bitlen n - 1) \<le> n" and hi: "n < 2 ^ nat (bitlen n)" by auto
  have "(of_int (2 ^ nat (bitlen n - 1)) :: rat) \<le> of_int n"
    using lo by (simp only: of_int_le_iff)
  also have "\<dots> \<le> x" by (simp add: n_def)
  finally have A: "pow2 (bitlen n - 1) \<le> x"
    using b1 by (simp add: pow2_def)
  have "n + 1 \<le> 2 ^ nat (bitlen n)" using hi by simp
  then have "(of_int (n + 1) :: rat) \<le> of_int (2 ^ nat (bitlen n))"
    by (simp only: of_int_le_iff)
  moreover have "x < of_int (n + 1)" using floor_correct [of x] by (simp add: n_def)
  ultimately have B: "x < pow2 (bitlen n)"
    using b1 by (simp add: pow2_def)
  show ?thesis using A B by (simp add: fl)
next
  case False
  define y where "y = 1 / x"
  have y1: "1 < y" using False assms by (simp add: y_def)
  define m where "m = \<lceil>y\<rceil> - 1"
  have "2 \<le> \<lceil>y\<rceil>" using y1 by (simp add: le_ceiling_iff)
  then have mpos: "0 < m" by (simp add: m_def)
  have b1: "1 \<le> bitlen m" using mpos by (simp add: bitlen_alt_def)
  have fl: "floor_log2 x = - bitlen m"
    using False by (simp add: floor_log2_def m_def y_def)
  from bitlen_bounds [OF mpos]
  have lo: "2 ^ nat (bitlen m - 1) \<le> m" and hi: "m < 2 ^ nat (bitlen m)" by auto
  have "(2::rat) ^ nat (bitlen m - 1) \<le> of_int m"
    using lo of_int_le_iff [where ?'a = rat, of "2 ^ nat (bitlen m - 1)" m] by simp
  moreover have "of_int m < y" using ceiling_correct [of y] by (simp add: m_def)
  ultimately have A: "2 ^ nat (bitlen m - 1) < y" by (rule le_less_trans)
  have "m + 1 \<le> 2 ^ nat (bitlen m)" using hi by simp
  then have "(of_int (m + 1) :: rat) \<le> of_int (2 ^ nat (bitlen m))"
    by (simp only: of_int_le_iff)
  moreover have "y \<le> of_int (m + 1)" using ceiling_correct [of y] by (simp add: m_def)
  ultimately have B: "y \<le> 2 ^ nat (bitlen m)" by simp
  have xy: "x = 1 / y" by (simp add: y_def)
  have ypos: "0 < y" using y1 by simp
  have C: "pow2 (- bitlen m) \<le> x"
    using B ypos b1 by (simp add: pow2_def xy field_simps)
  have D: "x < pow2 (- bitlen m + 1)"
  proof (cases "bitlen m = 1")
    case True
    then show ?thesis using y1 ypos by (simp add: pow2_def xy)
  next
    case False
    then have "1 < bitlen m" using b1 by simp
    then have eq: "pow2 (- bitlen m + 1) = 1 / 2 ^ nat (bitlen m - 1)"
      by (simp add: pow2_def)
    have "1 / y < 1 / 2 ^ nat (bitlen m - 1)"
      using A ypos by (intro divide_strict_left_mono) (auto intro: mult_pos_pos)
    then show ?thesis by (simp only: eq xy)
  qed
  show ?thesis using C D by (simp add: fl)
qed

lemma floor_log2_mono:
  assumes "0 < x" "x \<le> y"
  shows "floor_log2 x \<le> floor_log2 y"
proof -
  have "pow2 (floor_log2 x) \<le> x" using floor_log2_bounds [OF assms(1)] by simp
  also have "\<dots> \<le> y" by fact
  also have "\<dots> < pow2 (floor_log2 y + 1)" using floor_log2_bounds [of y] assms by simp
  finally have "floor_log2 x < floor_log2 y + 1" by (simp add: pow2_less_iff)
  then show ?thesis by simp
qed

lemma floor_log2_eqI:
  assumes "pow2 e \<le> x" "x < pow2 (e + 1)"
  shows "floor_log2 x = e"
proof -
  have x: "0 < x" using assms(1) pow2_pos [of e] by simp
  note b = floor_log2_bounds [OF x]
  have "pow2 e < pow2 (floor_log2 x + 1)" using assms(1) b by simp
  then have "e < floor_log2 x + 1" by (simp only: pow2_less_iff)
  moreover have "pow2 (floor_log2 x) < pow2 (e + 1)" using assms(2) b by simp
  then have "floor_log2 x < e + 1" by (simp only: pow2_less_iff)
  ultimately show ?thesis by simp
qed

lemma pow2_split: "pow2 (e + 1) = 2 ^ 53 * pow2 (e - 52)"
proof -
  have "pow2 (e + 1) = pow2 (53 + (e - 52))" by (rule arg_cong [of _ _ pow2]) simp
  also have "\<dots> = pow2 53 * pow2 (e - 52)" by (rule pow2_add)
  finally show ?thesis by (simp add: pow2_def)
qed

lemma pow2_split_lo: "pow2 e = 2 ^ 52 * pow2 (e - 52)"
proof -
  have "pow2 e = pow2 (52 + (e - 52))" by (rule arg_cong [of _ _ pow2]) simp
  also have "\<dots> = pow2 52 * pow2 (e - 52)" by (rule pow2_add)
  finally show ?thesis by (simp add: pow2_def)
qed


lemma pow2_1024: "pow2 1024 = 2 ^ 1024"
  by (simp add: pow2_def)

lemma pow2_below_1024: "k < 1024 \<Longrightarrow> pow2 k < 2 ^ 1024"
  using pow2_strict_mono [of k 1024] by (simp only: pow2_1024)

section \<open>Rounding to the nearest integer, ties to even\<close>

lemma round_half_even_of_int: "round_half_even (of_int n) = n"
  by (simp add: round_half_even_def)

lemma round_half_even_bounds:
  "\<lfloor>q\<rfloor> \<le> round_half_even q \<and> round_half_even q \<le> \<lfloor>q\<rfloor> + 1"
  by (simp add: round_half_even_def Let_def)

lemma round_half_even_mono:
  assumes "p \<le> q"
  shows "round_half_even p \<le> round_half_even q"
proof (cases "\<lfloor>p\<rfloor> = \<lfloor>q\<rfloor>")
  case True
  then show ?thesis using assms by (auto simp add: round_half_even_def Let_def)
next
  case False
  then have "\<lfloor>p\<rfloor> < \<lfloor>q\<rfloor>" using floor_mono [OF assms] by simp
  then have "round_half_even p \<le> \<lfloor>q\<rfloor>" using round_half_even_bounds [of p] by simp
  then show ?thesis using round_half_even_bounds [of q] by simp
qed

lemma round_half_even_minus: "round_half_even (- q) = - round_half_even q"
proof (cases "q \<in> \<int>")
  case True
  then obtain n where "q = of_int n" by (auto elim: Ints_cases)
  then show ?thesis using round_half_even_of_int [of "- n"] round_half_even_of_int [of n] by simp
next
  case False
  then have "q \<noteq> of_int \<lfloor>q\<rfloor>" by (metis Ints_of_int)
  then have "\<lceil>q\<rceil> = \<lfloor>q\<rfloor> + 1" by (simp add: ceiling_altdef)
  then have fl: "\<lfloor>- q\<rfloor> = - \<lfloor>q\<rfloor> - 1" by (simp add: ceiling_def)
  show ?thesis
    by (simp add: round_half_even_def Let_def fl)
qed


section \<open>Rounding to 53 bits: symmetry, monotonicity, error\<close>

lemma round53_expo:
  "x \<noteq> 0 \<Longrightarrow> round53 x = of_int (round_half_even (x / pow2 (expo x - 52))) * pow2 (expo x - 52)"
  by (simp add: round53_def expo_def Let_def)

lemma round53_zero: "round53 0 = 0"
  by (simp add: round53_def)

lemma round53_minus: "round53 (- x) = - round53 x"
  by (simp add: round53_def Let_def round_half_even_minus)

lemma round53_nonneg:
  assumes "0 \<le> x"
  shows "0 \<le> round53 x"
proof (cases "x = 0")
  case True
  then show ?thesis by (simp add: round53_zero)
next
  case False
  let ?u = "pow2 (expo x - 52)"
  have u: "0 < ?u" by (rule pow2_pos)
  have "0 \<le> x / ?u" using assms u by simp
  then have "round_half_even 0 \<le> round_half_even (x / ?u)" by (rule round_half_even_mono)
  then have "0 \<le> round_half_even (x / ?u)" using round_half_even_of_int [of 0] by simp
  then show ?thesis using u by (simp add: round53_expo [OF False])
qed

lemma round53_upper:
  assumes "0 < x"
  shows "round53 x \<le> pow2 (expo x + 1)"
proof -
  let ?u = "pow2 (expo x - 52)"
  have u: "0 < ?u" by (rule pow2_pos)
  have x0: "x \<noteq> 0" using assms by simp
  have "x < pow2 (floor_log2 x + 1)" using floor_log2_bounds [OF assms] by simp
  also have "\<dots> \<le> pow2 (expo x + 1)"
    using assms by (intro pow2_mono) (simp add: expo_def)
  finally have "x < 2 ^ 53 * ?u" by (simp only: pow2_split)
  then have "x / ?u \<le> of_int (2 ^ 53)" using u by (simp add: field_simps)
  then have "round_half_even (x / ?u) \<le> round_half_even (of_int (2 ^ 53))"
    by (rule round_half_even_mono)
  then have "round_half_even (x / ?u) \<le> 2 ^ 53" by (simp only: round_half_even_of_int)
  then have "(of_int (round_half_even (x / ?u)) :: rat) \<le> of_int (2 ^ 53)"
    by (simp only: of_int_le_iff)
  then have "of_int (round_half_even (x / ?u)) * ?u \<le> of_int (2 ^ 53) * ?u"
    using u by (simp only: mult_le_cancel_right_pos)
  then show ?thesis by (simp add: round53_expo [OF x0] pow2_split)
qed

lemma round53_lower:
  assumes "0 < x" "- 1022 \<le> floor_log2 x"
  shows "pow2 (expo x) \<le> round53 x"
proof -
  let ?u = "pow2 (expo x - 52)"
  have u: "0 < ?u" by (rule pow2_pos)
  have x0: "x \<noteq> 0" using assms by simp
  have e: "expo x = floor_log2 x" using assms by (simp add: expo_def)
  have "pow2 (expo x) \<le> x" using floor_log2_bounds [OF assms(1)] by (simp add: e)
  then have "2 ^ 52 * ?u \<le> x" using pow2_split_lo [of "expo x"] by simp
  then have "of_int (2 ^ 52) \<le> x / ?u" using u by (simp add: field_simps)
  then have "round_half_even (of_int (2 ^ 52)) \<le> round_half_even (x / ?u)"
    by (rule round_half_even_mono)
  then have "2 ^ 52 \<le> round_half_even (x / ?u)" by (simp only: round_half_even_of_int)
  then have "(of_int (2 ^ 52) :: rat) \<le> of_int (round_half_even (x / ?u))"
    by (simp only: of_int_le_iff)
  then have "of_int (2 ^ 52) * ?u \<le> of_int (round_half_even (x / ?u)) * ?u"
    using u by (simp only: mult_le_cancel_right_pos)
  then show ?thesis using pow2_split_lo [of "expo x"] by (simp add: round53_expo [OF x0])
qed

lemma round53_mono_pos:
  assumes "0 < x" "x \<le> y"
  shows "round53 x \<le> round53 y"
proof -
  have y: "0 < y" using assms by simp
  have x0: "x \<noteq> 0" and y0: "y \<noteq> 0" using assms by auto
  have le: "expo x \<le> expo y"
    using floor_log2_mono [of x y] assms by (simp add: expo_def)
  show ?thesis
  proof (cases "expo x = expo y")
    case True
    let ?u = "pow2 (expo y - 52)"
    have u: "0 < ?u" by (rule pow2_pos)
    have "x / ?u \<le> y / ?u" using assms u by (simp add: divide_right_mono)
    then have "round_half_even (x / ?u) \<le> round_half_even (y / ?u)"
      by (rule round_half_even_mono)
    then have "(of_int (round_half_even (x / ?u)) :: rat) \<le> of_int (round_half_even (y / ?u))"
      by (simp only: of_int_le_iff)
    then have "of_int (round_half_even (x / ?u)) * ?u \<le> of_int (round_half_even (y / ?u)) * ?u"
      using u by (simp only: mult_le_cancel_right_pos)
    then show ?thesis by (simp add: round53_expo [OF x0] round53_expo [OF y0] True)
  next
    case False
    then have lt: "expo x < expo y" using le by simp
    have "- 1022 \<le> expo x" by (simp add: expo_def)
    then have "- 1022 < expo y" using lt by simp
    then have fy: "- 1022 \<le> floor_log2 y" using y by (simp add: expo_def max_def split: if_splits)
    have "round53 x \<le> pow2 (expo x + 1)" by (rule round53_upper [OF assms(1)])
    also have "\<dots> \<le> pow2 (expo y)" using lt by (intro pow2_mono) simp
    also have "\<dots> \<le> round53 y" by (rule round53_lower [OF y fy])
    finally show ?thesis .
  qed
qed

lemma round53_mono:
  assumes "x \<le> y"
  shows "round53 x \<le> round53 y"
proof -
  consider "0 < x" | "x \<le> 0" "0 \<le> y" | "y < 0" by linarith
  then show ?thesis
  proof cases
    case 1
    then show ?thesis using assms by (rule round53_mono_pos)
  next
    case 2
    have "round53 x = - round53 (- x)" using round53_minus [of x] by simp
    moreover have "0 \<le> round53 (- x)" using 2 by (intro round53_nonneg) simp
    moreover have "0 \<le> round53 y" using 2 by (intro round53_nonneg)
    ultimately show ?thesis by simp
  next
    case 3
    then have "0 < - y" "- y \<le> - x" using assms by auto
    then have "round53 (- y) \<le> round53 (- x)" by (rule round53_mono_pos)
    then show ?thesis by (simp add: round53_minus)
  qed
qed

lemma round53_pow2:
  assumes "- 1022 \<le> k"
  shows "round53 (pow2 k) = pow2 k"
proof -
  have p: "0 < pow2 k" by (rule pow2_pos)
  have "pow2 k < pow2 (k + 1)" by (intro pow2_strict_mono) simp
  then have fl: "floor_log2 (pow2 k) = k" by (intro floor_log2_eqI) simp_all
  have ex: "expo (pow2 k) = k" using assms p by (simp add: expo_def fl)
  have u: "0 < pow2 (k - 52)" by (rule pow2_pos)
  have q: "pow2 k / pow2 (k - 52) = of_int (2 ^ 52)"
    using pow2_split_lo [of k] u by simp
  have "round53 (pow2 k) =
          of_int (round_half_even (pow2 k / pow2 (expo (pow2 k) - 52))) * pow2 (expo (pow2 k) - 52)"
    using p by (intro round53_expo) simp
  also have "\<dots> = of_int (round_half_even (of_int (2 ^ 52))) * pow2 (k - 52)"
    by (simp only: ex q)
  also have "\<dots> = of_int (2 ^ 52) * pow2 (k - 52)"
    by (simp only: round_half_even_of_int)
  also have "\<dots> = pow2 k" using pow2_split_lo [of k] by simp
  finally show ?thesis .
qed


section \<open>Rounding numerals\<close>

text \<open>
  Rules that let the simplifier compute \<open>round53\<close> on a rational numeral: floors
  and ceilings of quotients of numerals, and the bit length of a numeral.
\<close>

lemma floor_rat_numeral_div: "\<lfloor>(numeral a :: rat) / numeral b\<rfloor> = numeral a div numeral b"
  by (metis floor_divide_of_int_eq of_int_numeral)

lemma floor_rat_neg_numeral_div:
  "\<lfloor>- ((numeral a :: rat) / numeral b)\<rfloor> = - numeral a div numeral b"
  by (metis divide_minus_left floor_divide_of_int_eq of_int_neg_numeral of_int_numeral)

lemma floor_rat_one_div: "\<lfloor>(1 :: rat) / numeral b\<rfloor> = 1 div numeral b"
  by (metis floor_divide_of_int_eq of_int_numeral of_int_1)

lemma ceiling_rat_numeral_div:
  "\<lceil>(numeral a :: rat) / numeral b\<rceil> = - (- numeral a div numeral b)"
  unfolding ceiling_def
  by (metis divide_minus_left floor_divide_of_int_eq of_int_neg_numeral of_int_numeral)

lemma ceiling_rat_neg_numeral_div:
  "\<lceil>- ((numeral a :: rat) / numeral b)\<rceil> = - (numeral a div numeral b)"
  unfolding ceiling_def
  by (simp add: floor_rat_numeral_div)

lemma bitlen_numeral: "bitlen (numeral n) = bitlen (numeral n div 2) + 1"
  by (subst compute_bitlen) simp

lemma bitlen_one: "bitlen 1 = 1"
  by (subst compute_bitlen) simp

lemmas round_simps = round53_def floor_log2_def pow2_def round_half_even_def Let_def
  floor_rat_numeral_div floor_rat_neg_numeral_div floor_rat_one_div
  ceiling_rat_numeral_div ceiling_rat_neg_numeral_div bitlen_numeral bitlen_one

lemma round53_1024: "round53 1024 = 1024" "round53 (- 1024) = - 1024"
  by (simp_all add: round_simps)


section \<open>Results that stay finite\<close>

lemma round64_not_NaN: "round64 x \<noteq> NaN"
  by (simp add: round64_def Let_def)

lemma round64_interval:
  assumes "a \<le> x" "x \<le> b" "round53 a = a" "round53 b = b" "- (2 ^ 1024) < a" "b < 2 ^ 1024"
  shows "\<exists>r. round64 x = Finite r \<and> a \<le> r \<and> r \<le> b"
proof -
  have "round53 a \<le> round53 x" "round53 x \<le> round53 b"
    using assms(1,2) by (auto intro: round53_mono)
  then have "a \<le> round53 x" "round53 x \<le> b" using assms(3,4) by simp_all
  then show ?thesis using assms(5,6) by (auto simp add: round64_def Let_def)
qed

lemma round64_small:
  assumes "\<bar>x\<bar> \<le> 1024"
  shows "round64 x = Finite (round53 x)"
proof -
  have "round53 x \<le> round53 1024" using assms by (intro round53_mono) simp
  moreover have "round53 (- 1024) \<le> round53 x" using assms by (intro round53_mono) simp
  ultimately have "round53 x \<le> 1024" "- 1024 \<le> round53 x" by (simp_all add: round53_1024)
  moreover have "(1024::rat) < 2 ^ 1024" by simp
  ultimately show ?thesis by (simp add: round64_def)
qed

lemma float_of_int_small:
  "float_of_int 30 = Inr (Finite 30)" "float_of_int 40 = Inr (Finite 40)"
  "float_of_int 50 = Inr (Finite 50)" "float_of_int 60 = Inr (Finite 60)"
  "float_of_int 100 = Inr (Finite 100)"
  by (simp_all add: float_of_int_def round64_small round_simps)

lemma round64_bounded:
  assumes "\<bar>x\<bar> \<le> pow2 k" "- 1022 \<le> k" "k < 1024"
  shows "round64 x = Finite (round53 x) \<and> \<bar>round53 x\<bar> \<le> pow2 k"
proof -
  have a: "round53 (pow2 k) = pow2 k" using assms(2) by (rule round53_pow2)
  then have b: "round53 (- pow2 k) = - pow2 k" by (simp only: round53_minus)
  have "- (2 ^ 1024) < - pow2 k" "pow2 k < 2 ^ 1024"
    using pow2_below_1024 [OF assms(3)] by simp_all
  moreover have "- pow2 k \<le> x" "x \<le> pow2 k" using assms(1) by simp_all
  ultimately obtain r where r: "round64 x = Finite r" "- pow2 k \<le> r" "r \<le> pow2 k"
    using round64_interval [of "- pow2 k" x "pow2 k"] a b by blast
  have "r = round53 x" using r(1) by (auto simp add: round64_def Let_def split: if_splits)
  then show ?thesis using r by simp
qed

lemma demand_bound:
  assumes "\<bar>v\<bar> \<le> 2 ^ 1000"
  shows "\<bar>v / 100 :: rat\<bar> \<le> pow2 994"
proof -
  have "\<bar>v / 100\<bar> \<le> 2 ^ 1000 / 100" using assms by simp
  also have "(2 :: rat) ^ 1000 / 100 \<le> pow2 994" by (simp add: pow2_def)
  finally show ?thesis .
qed

lemma pow2_scale: "\<bar>r\<bar> \<le> pow2 994 \<Longrightarrow> 0 \<le> c \<Longrightarrow> c \<le> 64 \<Longrightarrow> \<bar>r * c\<bar> \<le> pow2 1000"
proof -
  assume r: "\<bar>r\<bar> \<le> pow2 994" and c: "0 \<le> c" "c \<le> 64"
  have "pow2 1000 = pow2 (994 + 6)" by simp
  also have "\<dots> = pow2 994 * pow2 6" by (rule pow2_add)
  also have "\<dots> = pow2 994 * 64" by (simp add: pow2_def)
  finally have e: "pow2 1000 = pow2 994 * 64" .
  have "\<bar>r * c\<bar> = \<bar>r\<bar> * c" using c by (simp add: abs_mult)
  also have "\<dots> \<le> pow2 994 * 64" using r c by (intro mult_mono) simp_all
  finally show ?thesis by (simp only: e)
qed

lemma pow2_shift: "\<bar>r\<bar> \<le> pow2 1000 \<Longrightarrow> \<bar>c\<bar> \<le> 64 \<Longrightarrow> \<bar>c + r\<bar> \<le> pow2 1001"
proof -
  assume r: "\<bar>r\<bar> \<le> pow2 1000" and c: "\<bar>c\<bar> \<le> 64"
  have "pow2 1001 = pow2 (1000 + 1)" by simp
  also have "\<dots> = pow2 1000 * pow2 1" by (rule pow2_add)
  also have "\<dots> = pow2 1000 * 2" by (simp add: pow2_def)
  finally have e: "pow2 1001 = pow2 1000 * 2" .
  have "pow2 6 \<le> pow2 1000" by (intro pow2_mono) simp
  then have "64 \<le> pow2 1000" by (simp add: pow2_def)
  then have "\<bar>c + r\<bar> \<le> pow2 1000 * 2" using r c by linarith
  then show ?thesis by (simp only: e)
qed

lemma py_trunc_le: "r \<le> of_int n \<Longrightarrow> 0 \<le> n \<Longrightarrow> py_trunc r \<le> n"
  by (auto simp add: py_trunc_def floor_le_iff ceiling_le_iff)



section \<open>The position as a function of the demand\<close>


lemma py_truediv_finite:
  assumes "number_value x = Some v" "\<bar>v\<bar> \<le> 2 ^ 1000"
  shows "py_truediv x 100 = Inr (Finite (round53 (v / 100)))"
    and "\<bar>round53 (v / 100)\<bar> \<le> pow2 994"
proof -
  have r: "round64 (v / 100) = Finite (round53 (v / 100))" "\<bar>round53 (v / 100)\<bar> \<le> pow2 994"
    using round64_bounded [OF demand_bound [OF assms(2)]] by simp_all
  show "\<bar>round53 (v / 100)\<bar> \<le> pow2 994" by (rule r(2))
  show "py_truediv x 100 = Inr (Finite (round53 (v / 100)))"
  proof (cases x)
    case (PyInt a)
    then have "v = of_int a" using assms(1) by simp
    then show ?thesis using r(1) PyInt by (simp add: py_truediv_def int_truediv_def)
  next
    case (PyFloat y)
    then have "y = Finite v" using assms(1) by (cases y) simp_all
    then show ?thesis
      using r(1) PyFloat by (simp add: py_truediv_def float_of_int_small bind_def)
  qed
qed


lemma heat_tail_finite:
  assumes "\<bar>r1\<bar> \<le> pow2 994"
  shows "heat_tail (Finite r1) = Inr (max 60 (min (py_trunc (round53 (60 + round53 (r1 * 40)))) 100))"
proof -
  define r2 where "r2 = round53 (r1 * 40)"
  have 2: "round64 (r1 * 40) = Finite r2" "\<bar>r2\<bar> \<le> pow2 1000"
    using round64_bounded [OF pow2_scale [OF assms, of 40]] by (simp_all add: r2_def)
  have "\<bar>60 + r2\<bar> \<le> pow2 1001" using 2(2) by (intro pow2_shift) simp_all
  then have 3: "round64 (60 + r2) = Finite (round53 (60 + r2))"
    using round64_bounded [of "60 + r2" 1001] by simp
  show ?thesis
    unfolding r2_def [symmetric]
    by (simp add: heat_tail_def float_mul_int_def int_add_float_def
        bind_def float_of_int_small 2 3)
qed


lemma heat_value_finite:
  assumes "number_value x = Some v" "\<bar>v\<bar> \<le> 2 ^ 1000"
  shows "heat_value x = Inr (heat_rounded v)"
  using py_truediv_finite [OF assms] heat_tail_finite [of "round53 (v / 100)"]
  by (simp add: heat_value_def bind_def heat_float_def heat_rounded_def)


lemma heat_float_mono: "v \<le> v' \<Longrightarrow> heat_float v \<le> heat_float v'"
  unfolding heat_float_def
  by (intro round53_mono add_left_mono mult_right_mono divide_right_mono) simp_all







section \<open>The binary64 result against the exact interpolation\<close>







lemma heat_float_fives:
  "heat_float 0 = 60" "heat_float 5 = 62" "heat_float 10 = 64" "heat_float 15 = 66"
  "heat_float 20 = 68" "heat_float 25 = 70" "heat_float 30 = 72" "heat_float 35 = 74"
  "heat_float 40 = 76" "heat_float 45 = 78" "heat_float 50 = 80" "heat_float 55 = 82"
  "heat_float 60 = 84" "heat_float 65 = 86" "heat_float 70 = 88" "heat_float 75 = 90"
  "heat_float 80 = 92" "heat_float 85 = 94" "heat_float 90 = 96" "heat_float 95 = 98"
  "heat_float 100 = 100"
  by (simp_all add: heat_float_def round_simps)






lemma heat_rounded_low:
  assumes "v \<le> 0"
  shows "heat_rounded v = 60" "heat_interpolation v = 60"
proof -
  have "heat_float v \<le> heat_float 0" using assms by (rule heat_float_mono)
  then have "heat_float v \<le> of_int 60" by (simp add: heat_float_fives)
  then have "py_trunc (heat_float v) \<le> 60" by (rule py_trunc_le) simp
  then show "heat_rounded v = 60" by (simp add: heat_rounded_def)
  have "60 + v / 100 * 40 \<le> (of_int 60 :: rat)" using assms by simp
  then have "py_trunc (60 + v / 100 * 40) \<le> 60" by (rule py_trunc_le) simp
  then show "heat_interpolation v = 60" by (simp add: heat_interpolation_def)
qed















section \<open>The method and its arithmetic\<close>


lemma calculate_heat:
  assumes "hvac_mode s = HEAT" "temperatures_known s"
  shows "calculate_valve_position upd s = (heat_value (demand upd s), refreshed upd s)"
  using assms
  by (auto simp add: calculate_valve_position_def temperatures_known_def demand_def refreshed_def
      heat_value_def heat_tail_def [abs_def] Let_def split_beta update_hvac_power_def hvac_action_def
      write_log_def HEATING_MIN_POSITION_def HEATING_MAX_POSITION_def)

lemma calculate_preserves:
  "service_calls (snd (calculate_valve_position upd s)) = service_calls s"
  "valve_entity_id (snd (calculate_valve_position upd s)) = valve_entity_id s"
  "fan_entity_id (snd (calculate_valve_position upd s)) = fan_entity_id s"
  "hvac_mode (snd (calculate_valve_position upd s)) = hvac_mode s"
  by (simp_all add: calculate_valve_position_def Let_def split_beta write_log_def
      update_hvac_power_def hvac_action_def)


lemma example_heat:
  "hvac_mode (example_state\<lparr>hvac_mode := HEAT\<rparr>) = HEAT"
  "temperatures_known (example_state\<lparr>hvac_mode := HEAT\<rparr>)"
  by (simp_all add: example_state_def temperatures_known_def example_environment_def
      target_env_attr_def)


lemma py_eq_zero_value: "py_eq_zero x \<Longrightarrow> number_value x = Some 0"
  by (induction x rule: py_eq_zero.induct) simp_all

section \<open>The actuator commands\<close>

text \<open>
  What a setter returns, the calls it has issued and what it leaves unchanged.
\<close>

lemma set_valve_position_calls:
  "fst (async_set_valve_position hass position s) =
     (case valve_entity_id s of
        None \<Rightarrow> Inr ()
      | Some valve \<Rightarrow>
          (case propagated hass (service_calls s) (set_valve_position_call valve position) of
             None \<Rightarrow> Inr () | Some e \<Rightarrow> Inl e))"
  "service_calls (snd (async_set_valve_position hass position s)) =
     service_calls s @
     (case valve_entity_id s of None \<Rightarrow> [] | Some valve \<Rightarrow> [set_valve_position_call valve position])"
  "hvac_power (snd (async_set_valve_position hass position s)) = hvac_power s"
  "hvac_mode (snd (async_set_valve_position hass position s)) = hvac_mode s"
  "valve_entity_id (snd (async_set_valve_position hass position s)) = valve_entity_id s"
  "fan_entity_id (snd (async_set_valve_position hass position s)) = fan_entity_id s"
  by (simp_all add: async_set_valve_position_def async_call_def write_log_def Let_def
      set_valve_position_call_def propagated_def split: option.splits)

lemma set_fan_speed_calls:
  "fst (async_set_fan_speed hass speed s) =
     (case fan_entity_id s of
        None \<Rightarrow> Inr ()
      | Some fan \<Rightarrow>
          (case propagated hass (service_calls s) (fan_call fan speed) of
             None \<Rightarrow> Inr () | Some e \<Rightarrow> Inl e))"
  "service_calls (snd (async_set_fan_speed hass speed s)) =
     service_calls s @ (case fan_entity_id s of None \<Rightarrow> [] | Some fan \<Rightarrow> [fan_call fan speed])"
  "hvac_power (snd (async_set_fan_speed hass speed s)) = hvac_power s"
  "hvac_mode (snd (async_set_fan_speed hass speed s)) = hvac_mode s"
  "valve_entity_id (snd (async_set_fan_speed hass speed s)) = valve_entity_id s"
  "fan_entity_id (snd (async_set_fan_speed hass speed s)) = fan_entity_id s"
  by (simp_all add: async_set_fan_speed_def async_call_def write_log_def Let_def
      fan_call_def fan_turn_off_call_def fan_set_percentage_call_def propagated_def
      split: option.splits)



text \<open>A transport that raises only instances of \<^verbatim>\<open>Exception\<close> lets nothing through.\<close>

lemma propagated_caught:
  "\<forall>history c e. hass history c = Some e \<longrightarrow> is_Exception e \<Longrightarrow> propagated hass history c = None"
  by (simp add: propagated_def split: option.splits)

lemma issued_caught:
  "\<forall>history c e. hass history c = Some e \<longrightarrow> is_Exception e \<Longrightarrow>
   issued hass history cs = (Inr (), history @ cs)"
  by (induction cs arbitrary: history) (simp_all add: propagated_caught)

text \<open>Turning off makes its calls in order and stops at the first exception let through.\<close>

lemma turn_off_result:
  "(fst (async_turn_off hass upd s), service_calls (snd (async_turn_off hass upd s)))
     = issued hass (service_calls s) (turn_off_calls s)"
  "valve_entity_id (snd (async_turn_off hass upd s)) = valve_entity_id s"
  "fan_entity_id (snd (async_turn_off hass upd s)) = fan_entity_id s"
  by (auto simp add: async_turn_off_def Let_def split_beta set_valve_position_calls
      set_fan_speed_calls write_log_def update_hvac_power_def turn_off_calls_def OFF_POSITION_def
      fan_call_def split: option.splits sum.splits)

lemma commanded_calls:
  "service_calls t = service_calls s @ ds \<Longrightarrow>
   commanded domain_name t =
     (if filter (\<lambda>c. call_domain c = domain_name) ds = []
      then commanded domain_name s
      else Some (last (filter (\<lambda>c. call_domain c = domain_name) ds)))"
  by (simp add: commanded_def Let_def)

text \<open>
  Turning on with both identities present, once the position is computed: the
  valve call, then the fan call with the demand percent of the power manager as
  the computation left it.
\<close>

lemma turn_on_active:
  assumes "valve_entity_id s = Some valve" "fan_entity_id s = Some fan" "hvac_mode s \<noteq> OFF"
      and "calculate_valve_position upd
             (write_log INFO ''%s. Setting valve position and fan speed for entities %s, %s''
                [ArgStr class_name, ArgId (Some valve), ArgId (Some fan)] s) = (Inr p, s2)"
  shows "(fst (async_turn_on hass upd s), service_calls (snd (async_turn_on hass upd s)))
           = issued hass (service_calls s)
               [set_valve_position_call valve p, fan_call fan (hvac_power_percent (hvac_power s2))]"
    and "hvac_power (snd (async_turn_on hass upd s)) = hvac_power s2"
proof -
  let ?s1 = "write_log INFO ''%s. Setting valve position and fan speed for entities %s, %s''
               [ArgStr class_name, ArgId (Some valve), ArgId (Some fan)] s"
  have s1: "valve_entity_id ?s1 = Some valve" "fan_entity_id ?s1 = Some fan"
    "service_calls ?s1 = service_calls s" "hvac_mode ?s1 = hvac_mode s"
    using assms(1,2) by (simp_all add: write_log_def)
  have "s2 = snd (calculate_valve_position upd ?s1)" by (simp add: assms(4))
  then have s2: "valve_entity_id s2 = Some valve" "fan_entity_id s2 = Some fan"
    "service_calls s2 = service_calls s" "hvac_mode s2 = hvac_mode s"
    by (simp_all add: calculate_preserves s1)
  obtain x s3 where p: "async_set_valve_position hass p s2 = (x, s3)"
    by (cases "async_set_valve_position hass p s2") simp
  have x: "x = (case propagated hass (service_calls s) (set_valve_position_call valve p) of
                  None \<Rightarrow> Inr () | Some e \<Rightarrow> Inl e)"
    using set_valve_position_calls(1) [of hass p s2] by (simp add: p s2)
  have s3: "service_calls s3 = service_calls s @ [set_valve_position_call valve p]"
    "hvac_power s3 = hvac_power s2" "hvac_mode s3 = hvac_mode s" "fan_entity_id s3 = Some fan"
    using set_valve_position_calls(2-6) [of hass p s2] by (simp_all add: p s2)
  have sp: "calculate_fan_speed s3 = hvac_power_percent (hvac_power s2)"
    using assms(3) s3 by (simp add: calculate_fan_speed_def)
  have t: "async_turn_on hass upd s =
             (case x of
                Inl e \<Rightarrow> (Inl e, s3)
              | Inr u \<Rightarrow> async_set_fan_speed hass (hvac_power_percent (hvac_power s2)) s3)"
    using assms(1,2) by (cases x) (simp_all add: async_turn_on_def Let_def s1 assms(4) p sp)
  show "(fst (async_turn_on hass upd s), service_calls (snd (async_turn_on hass upd s)))
           = issued hass (service_calls s)
               [set_valve_position_call valve p, fan_call fan (hvac_power_percent (hvac_power s2))]"
    by (cases "propagated hass (service_calls s) (set_valve_position_call valve p)")
      (simp_all add: t x s3 set_fan_speed_calls split: option.splits)
  show "hvac_power (snd (async_turn_on hass upd s)) = hvac_power s2"
    by (cases "propagated hass (service_calls s) (set_valve_position_call valve p)")
      (simp_all add: t x s3 set_fan_speed_calls)
qed

section \<open>The valve position in mode COOL and in mode HEAT\<close>







section \<open>The fan speed\<close>

text \<open>
  C3 (as amended). The fan speed is the int 0 in mode OFF and the demand percent,
  unchanged, in every other mode, so in mode HEAT and in mode COOL, for every
  demand, int or float. It is an integer in \<open>[0, 100]\<close> whenever the demand
  percent is one.
\<close>

theorem fan_speed_value:
  "(hvac_mode s = OFF \<longrightarrow> calculate_fan_speed s = PyInt 0) \<and>
   (hvac_mode s \<noteq> OFF \<longrightarrow> calculate_fan_speed s = hvac_power_percent (hvac_power s)) \<and>
   (\<forall>n. hvac_power_percent (hvac_power s) = PyInt n \<and> 0 \<le> n \<and> n \<le> 100 \<longrightarrow>
      (\<exists>m. calculate_fan_speed s = PyInt m \<and> 0 \<le> m \<and> m \<le> 100))"
  by (auto simp add: calculate_fan_speed_def)

theorem fan_speed_value_witness:
  "hvac_mode example_state \<noteq> OFF \<and>
   hvac_power_percent (hvac_power example_state) = PyInt 80 \<and>
   calculate_fan_speed example_state = PyInt 80 \<and>
   hvac_mode (example_state\<lparr>hvac_mode := OFF\<rparr>) = OFF \<and>
   calculate_fan_speed (example_state\<lparr>hvac_mode := OFF\<rparr>) = PyInt 0"
  using fan_speed_value [of example_state] fan_speed_value [of "example_state\<lparr>hvac_mode := OFF\<rparr>"]
  by (simp add: example_state_def)

text \<open>
  The claim as stated makes the fan speed an integer in \<open>[0, 100]\<close> for every
  demand input, while the demand is returned as it is: at demand 150 in mode HEAT
  the fan speed is 150, and at the float demand 80.5 it is the float 80.5.
\<close>

theorem fan_speed_range_counterexample:
  "hvac_mode (example_state\<lparr>hvac_mode := HEAT, hvac_power := \<lparr>hvac_power_percent = PyInt 150\<rparr>\<rparr>)
     = HEAT \<and>
   calculate_fan_speed
     (example_state\<lparr>hvac_mode := HEAT, hvac_power := \<lparr>hvac_power_percent = PyInt 150\<rparr>\<rparr>)
     = PyInt 150 \<and>
   \<not> (150 :: int) \<le> 100 \<and>
   calculate_fan_speed
     (example_state\<lparr>hvac_mode := HEAT,
        hvac_power := \<lparr>hvac_power_percent = PyFloat (Finite (161 / 2))\<rparr>\<rparr>)
     = PyFloat (Finite (161 / 2)) \<and>
   (80 :: rat) < 161 / 2 \<and> (161 / 2 :: rat) < 81"
  by (simp add: calculate_fan_speed_def)

section \<open>The valve position when no demand is read\<close>

text \<open>
  C4. In mode OFF the valve position is 55, whatever the demand source would
  report and whatever the temperatures are, known or not; the state is left as it
  was, so the demand is not even read.
\<close>

theorem off_position:
  "hvac_mode s = OFF \<Longrightarrow> calculate_valve_position upd s = (Inr 55, s)"
  by (simp add: calculate_valve_position_def OFF_POSITION_def)

theorem off_position_witness:
  "hvac_mode (example_state\<lparr>hvac_mode := OFF, environment := no_environment\<rparr>) = OFF \<and>
   calculate_valve_position (fixed_demand (PyInt 150))
     (example_state\<lparr>hvac_mode := OFF, environment := no_environment\<rparr>)
   = (Inr 55, example_state\<lparr>hvac_mode := OFF, environment := no_environment\<rparr>)"
  using off_position
    [of "example_state\<lparr>hvac_mode := OFF, environment := no_environment\<rparr>"
        "fixed_demand (PyInt 150)"]
  by simp

text \<open>
  C5. In mode HEAT or COOL, when the current temperature or the target temperature
  is \<^verbatim>\<open>None\<close>, the computation returns normally with the OFF position 55. It
  writes one warning and changes nothing else: the result does not depend on the
  demand source, which is not refreshed, and no interpolation takes place.
\<close>

theorem missing_temperature:
  assumes "hvac_mode s = HEAT \<or> hvac_mode s = COOL"
      and "cur_temp (environment s) = None \<or> attr (environment s) (target_env_attr s) = None"
  shows "calculate_valve_position upd s =
           (Inr 55,
            write_log WARNING ''Temperature values not available, using default position'' [] s)"
  using assms by (auto simp add: calculate_valve_position_def OFF_POSITION_def)

theorem missing_temperature_witness:
  "(hvac_mode (example_state\<lparr>hvac_mode := HEAT, environment := no_environment\<rparr>) = HEAT \<or>
    hvac_mode (example_state\<lparr>hvac_mode := HEAT, environment := no_environment\<rparr>) = COOL) \<and>
   cur_temp (environment (example_state\<lparr>hvac_mode := HEAT, environment := no_environment\<rparr>))
     = None \<and>
   fst (calculate_valve_position (fixed_demand (PyInt 70))
          (example_state\<lparr>hvac_mode := HEAT, environment := no_environment\<rparr>)) = Inr 55"
  using missing_temperature
    [of "example_state\<lparr>hvac_mode := HEAT, environment := no_environment\<rparr>"
        "fixed_demand (PyInt 70)"]
  by (simp add: no_environment_def)

section \<open>Transport failures\<close>




section \<open>Turning on without both actuators\<close>

text \<open>
  C7. When the valve identity or the fan identity is \<^verbatim>\<open>None\<close>, turning on
  returns normally after writing its two log records (the announcement and the
  warning). Nothing else changes: no service call is issued, to the valve or to
  the fan, even when the other identity is present, and the demand source is not
  refreshed.
\<close>

theorem turn_on_missing_identity:
  assumes "valve_entity_id s = None \<or> fan_entity_id s = None"
  shows "async_turn_on hass upd s =
           (Inr (),
            s\<lparr>logged := logged s @
                 [LogRecord INFO ''%s. Setting valve position and fan speed for entities %s, %s''
                    [ArgStr class_name, ArgId (valve_entity_id s), ArgId (fan_entity_id s)],
                  LogRecord WARNING ''Valve or fan entity ID is None'' []]\<rparr>)"
  using assms by (auto simp add: async_turn_on_def write_log_def Let_def)

theorem turn_on_missing_identity_witness:
  "(valve_entity_id (example_state\<lparr>fan_entity_id := None\<rparr>) = None \<or>
    fan_entity_id (example_state\<lparr>fan_entity_id := None\<rparr>) = None) \<and>
   fst (async_turn_on reliable (fixed_demand (PyInt 80)) (example_state\<lparr>fan_entity_id := None\<rparr>))
     = Inr () \<and>
   service_calls
     (snd (async_turn_on reliable (fixed_demand (PyInt 80))
        (example_state\<lparr>fan_entity_id := None\<rparr>)))
     = []"
  using turn_on_missing_identity
    [of "example_state\<lparr>fan_entity_id := None\<rparr>" reliable "fixed_demand (PyInt 80)"]
  by (simp add: example_state_def)

section \<open>Turning off\<close>

text \<open>
  C8 (as amended). For every state, every transport and every demand source,
  turning off makes its calls in order, the valve command (position 55) when the
  valve identity is present and then the fan power-off command when the fan
  identity is present, each inside its handler of \<^verbatim>\<open>Exception\<close>: it stops at
  the first call that raises anything else, raising it, and otherwise returns
  normally. With a transport that raises only instances of \<^verbatim>\<open>Exception\<close>
  turning off returns normally, and so does turning off again; each invocation
  issues both commands, whatever the outcome of either call and whether or not
  the other identity is present; and the state each actuator was last commanded
  to is the same after two invocations as after one: position 55 for a present
  valve, off for a present fan.
\<close>

theorem turn_off_idempotent:
  "(fst (async_turn_off hass upd s), service_calls (snd (async_turn_off hass upd s)))
     = issued hass (service_calls s) (turn_off_calls s) \<and>
   ((\<forall>history c e. hass history c = Some e \<longrightarrow> is_Exception e) \<longrightarrow>
    (\<exists>s1 s2.
       async_turn_off hass upd s = (Inr (), s1) \<and>
       async_turn_off hass upd s1 = (Inr (), s2) \<and>
       service_calls s1 = service_calls s @ turn_off_calls s \<and>
       service_calls s2 = service_calls s1 @ turn_off_calls s \<and>
       commanded VALVE_DOMAIN s2 = commanded VALVE_DOMAIN s1 \<and>
       commanded FAN_DOMAIN s2 = commanded FAN_DOMAIN s1 \<and>
       (\<forall>valve. valve_entity_id s = Some valve \<longrightarrow>
          commanded VALVE_DOMAIN s1 = Some (set_valve_position_call valve 55)) \<and>
       (\<forall>fan. fan_entity_id s = Some fan \<longrightarrow>
          commanded FAN_DOMAIN s1 = Some (fan_turn_off_call fan))))"
proof (intro conjI impI)
  show "(fst (async_turn_off hass upd s), service_calls (snd (async_turn_off hass upd s)))
          = issued hass (service_calls s) (turn_off_calls s)"
    by (rule turn_off_result)
next
  assume caught: "\<forall>history c e. hass history c = Some e \<longrightarrow> is_Exception e"
  have res: "\<And>t. fst (async_turn_off hass upd t) = Inr ()"
    "\<And>t. service_calls (snd (async_turn_off hass upd t)) = service_calls t @ turn_off_calls t"
    using turn_off_result(1) [of hass upd, unfolded issued_caught [OF caught]] by simp_all
  define s1 where "s1 = snd (async_turn_off hass upd s)"
  define s2 where "s2 = snd (async_turn_off hass upd s1)"
  have r1: "async_turn_off hass upd s = (Inr (), s1)"
    using res(1) [of s] by (simp add: s1_def prod_eq_iff)
  have r2: "async_turn_off hass upd s1 = (Inr (), s2)"
    using res(1) [of s1] by (simp add: s2_def prod_eq_iff)
  have ids: "turn_off_calls s1 = turn_off_calls s"
    by (simp add: turn_off_calls_def s1_def turn_off_result)
  have c1: "service_calls s1 = service_calls s @ turn_off_calls s"
    by (simp add: s1_def res)
  have c2: "service_calls s2 = service_calls s1 @ turn_off_calls s"
    by (simp add: s2_def res ids)
  have v1: "commanded VALVE_DOMAIN s1 =
              (case valve_entity_id s of None \<Rightarrow> commanded VALVE_DOMAIN s
               | Some valve \<Rightarrow> Some (set_valve_position_call valve 55))"
    by (simp add: commanded_calls [OF c1] turn_off_calls_def set_valve_position_call_def
        fan_turn_off_call_def VALVE_DOMAIN_def FAN_DOMAIN_def split: option.splits)
  have v2: "commanded VALVE_DOMAIN s2 =
              (case valve_entity_id s of None \<Rightarrow> commanded VALVE_DOMAIN s1
               | Some valve \<Rightarrow> Some (set_valve_position_call valve 55))"
    by (simp add: commanded_calls [OF c2] turn_off_calls_def set_valve_position_call_def
        fan_turn_off_call_def VALVE_DOMAIN_def FAN_DOMAIN_def split: option.splits)
  have f1: "commanded FAN_DOMAIN s1 =
              (case fan_entity_id s of None \<Rightarrow> commanded FAN_DOMAIN s
               | Some fan \<Rightarrow> Some (fan_turn_off_call fan))"
    by (simp add: commanded_calls [OF c1] turn_off_calls_def set_valve_position_call_def
        fan_turn_off_call_def VALVE_DOMAIN_def FAN_DOMAIN_def split: option.splits)
  have f2: "commanded FAN_DOMAIN s2 =
              (case fan_entity_id s of None \<Rightarrow> commanded FAN_DOMAIN s1
               | Some fan \<Rightarrow> Some (fan_turn_off_call fan))"
    by (simp add: commanded_calls [OF c2] turn_off_calls_def set_valve_position_call_def
        fan_turn_off_call_def VALVE_DOMAIN_def FAN_DOMAIN_def split: option.splits)
  have "commanded VALVE_DOMAIN s2 = commanded VALVE_DOMAIN s1"
    using v1 v2 by (simp split: option.splits)
  moreover have "commanded FAN_DOMAIN s2 = commanded FAN_DOMAIN s1"
    using f1 f2 by (simp split: option.splits)
  ultimately show "\<exists>s1 s2.
       async_turn_off hass upd s = (Inr (), s1) \<and>
       async_turn_off hass upd s1 = (Inr (), s2) \<and>
       service_calls s1 = service_calls s @ turn_off_calls s \<and>
       service_calls s2 = service_calls s1 @ turn_off_calls s \<and>
       commanded VALVE_DOMAIN s2 = commanded VALVE_DOMAIN s1 \<and>
       commanded FAN_DOMAIN s2 = commanded FAN_DOMAIN s1 \<and>
       (\<forall>valve. valve_entity_id s = Some valve \<longrightarrow>
          commanded VALVE_DOMAIN s1 = Some (set_valve_position_call valve 55)) \<and>
       (\<forall>fan. fan_entity_id s = Some fan \<longrightarrow>
          commanded FAN_DOMAIN s1 = Some (fan_turn_off_call fan))"
    using r1 r2 c1 c2 v1 f1 by simp
qed

theorem turn_off_idempotent_witness:
  "valve_entity_id example_state = Some ''valve.zone'' \<and>
   fan_entity_id example_state = Some ''fan.zone'' \<and>
   failing [] (set_valve_position_call ''valve.zone'' 55)
     = Some (OtherException ''HomeAssistantError'') \<and>
   is_Exception (OtherException ''HomeAssistantError'') \<and>
   fst (async_turn_off failing (fixed_demand (PyInt 0)) example_state) = Inr () \<and>
   commanded VALVE_DOMAIN (snd (async_turn_off failing (fixed_demand (PyInt 0)) example_state))
     = Some (set_valve_position_call ''valve.zone'' 55) \<and>
   commanded FAN_DOMAIN (snd (async_turn_off failing (fixed_demand (PyInt 0)) example_state))
     = Some (fan_turn_off_call ''fan.zone'') \<and>
   commanded VALVE_DOMAIN
     (snd (async_turn_off failing (fixed_demand (PyInt 0))
        (snd (async_turn_off failing (fixed_demand (PyInt 0)) example_state))))
     = Some (set_valve_position_call ''valve.zone'' 55) \<and>
   commanded FAN_DOMAIN
     (snd (async_turn_off failing (fixed_demand (PyInt 0))
        (snd (async_turn_off failing (fixed_demand (PyInt 0)) example_state))))
     = Some (fan_turn_off_call ''fan.zone'')"
proof -
  have ids: "valve_entity_id example_state = Some ''valve.zone''"
    "fan_entity_id example_state = Some ''fan.zone''"
    by (simp_all add: example_state_def)
  have caught: "\<forall>history c e. failing history c = Some e \<longrightarrow> is_Exception e"
    by (simp add: failing_def)
  from turn_off_idempotent [of failing "fixed_demand (PyInt 0)" example_state,
      THEN conjunct2, THEN mp, OF caught]
  obtain s1 s2 where
    r: "async_turn_off failing (fixed_demand (PyInt 0)) example_state = (Inr (), s1)"
       "async_turn_off failing (fixed_demand (PyInt 0)) s1 = (Inr (), s2)"
       "commanded VALVE_DOMAIN s2 = commanded VALVE_DOMAIN s1"
       "commanded FAN_DOMAIN s2 = commanded FAN_DOMAIN s1"
       "\<forall>valve. valve_entity_id example_state = Some valve \<longrightarrow>
          commanded VALVE_DOMAIN s1 = Some (set_valve_position_call valve 55)"
       "\<forall>fan. fan_entity_id example_state = Some fan \<longrightarrow>
          commanded FAN_DOMAIN s1 = Some (fan_turn_off_call fan)"
    by blast
  show ?thesis using r ids by (simp add: failing_def)
qed

text \<open>
  The claim as stated has turning off never raise and attempt each sub-action even
  if the other fails. When the valve call is cancelled, the cancellation is not
  caught: turning off raises it after the valve call, and the fan is never
  commanded.
\<close>

theorem turn_off_cancelled_counterexample:
  "valve_entity_id example_state = Some ''valve.zone'' \<and>
   fan_entity_id example_state = Some ''fan.zone'' \<and>
   cancelling (service_calls example_state) (set_valve_position_call ''valve.zone'' 55)
     = Some CancelledError \<and>
   fst (async_turn_off cancelling (fixed_demand (PyInt 0)) example_state) = Inl CancelledError \<and>
   service_calls (snd (async_turn_off cancelling (fixed_demand (PyInt 0)) example_state))
     = [set_valve_position_call ''valve.zone'' 55] \<and>
   commanded FAN_DOMAIN (snd (async_turn_off cancelling (fixed_demand (PyInt 0)) example_state))
     = None"
proof -
  have "(fst (async_turn_off cancelling (fixed_demand (PyInt 0)) example_state),
         service_calls (snd (async_turn_off cancelling (fixed_demand (PyInt 0)) example_state)))
          = (Inl CancelledError, [set_valve_position_call ''valve.zone'' 55])"
    by (simp add: turn_off_result turn_off_calls_def propagated_def example_state_def
        cancelling_def)
  then show ?thesis
    by (simp add: commanded_def set_valve_position_call_def VALVE_DOMAIN_def FAN_DOMAIN_def
        example_state_def cancelling_def)
qed

section \<open>The fan command\<close>

text \<open>
  C9. With the fan identity present, \<^verbatim>\<open>_async_set_fan_speed\<close> issues exactly
  one call: the power-off call when the speed equals 0, the set-percentage call
  with that speed otherwise. In particular at demand 0 in mode HEAT or COOL the
  fan speed is 0 and the power-off call is issued; and turning on in mode HEAT
  with a demand source that reports 0 makes the valve call with position 60 and
  then the fan power-off call, stopping after the valve call only if that call
  raises something that is not an instance of \<^verbatim>\<open>Exception\<close>.
\<close>

theorem fan_power_off_at_zero:
  assumes "fan_entity_id s = Some fan"
  shows "service_calls (snd (async_set_fan_speed hass speed s)) =
           service_calls s @
           [if py_eq_zero speed then fan_turn_off_call fan
            else fan_set_percentage_call fan speed] \<and>
         ((hvac_mode s = HEAT \<or> hvac_mode s = COOL) \<and>
          py_eq_zero (hvac_power_percent (hvac_power s)) \<longrightarrow>
            service_calls (snd (async_set_fan_speed hass (calculate_fan_speed s) s)) =
              service_calls s @ [fan_turn_off_call fan]) \<and>
         (hvac_mode s = HEAT \<and> temperatures_known s \<and> valve_entity_id s = Some valve \<and>
          (\<forall>name action t. py_eq_zero (hvac_power_percent (upd name action t))) \<longrightarrow>
            (fst (async_turn_on hass upd s), service_calls (snd (async_turn_on hass upd s))) =
              issued hass (service_calls s)
                [set_valve_position_call valve 60, fan_turn_off_call fan] \<and>
            ((\<forall>history c e. hass history c = Some e \<longrightarrow> is_Exception e) \<longrightarrow>
               fst (async_turn_on hass upd s) = Inr () \<and>
               service_calls (snd (async_turn_on hass upd s)) =
                 service_calls s @ [set_valve_position_call valve 60, fan_turn_off_call fan]))"
proof (intro conjI impI)
  show "service_calls (snd (async_set_fan_speed hass speed s)) =
           service_calls s @
           [if py_eq_zero speed then fan_turn_off_call fan
            else fan_set_percentage_call fan speed]"
    using assms by (simp add: set_fan_speed_calls fan_call_def)
next
  assume "(hvac_mode s = HEAT \<or> hvac_mode s = COOL) \<and>
          py_eq_zero (hvac_power_percent (hvac_power s))"
  then have "py_eq_zero (calculate_fan_speed s)" by (auto simp add: calculate_fan_speed_def)
  then show "service_calls (snd (async_set_fan_speed hass (calculate_fan_speed s) s)) =
               service_calls s @ [fan_turn_off_call fan]"
    using assms by (simp add: set_fan_speed_calls fan_call_def)
next
  assume a: "hvac_mode s = HEAT \<and> temperatures_known s \<and> valve_entity_id s = Some valve \<and>
             (\<forall>name action t. py_eq_zero (hvac_power_percent (upd name action t)))"
  let ?s1 = "write_log INFO ''%s. Setting valve position and fan speed for entities %s, %s''
               [ArgStr class_name, ArgId (Some valve), ArgId (Some fan)] s"
  have m: "hvac_mode ?s1 = HEAT" "temperatures_known ?s1"
    using a by (auto simp add: write_log_def temperatures_known_def target_env_attr_def)
  have z: "py_eq_zero (demand upd ?s1)"
    using a by (simp add: demand_def refreshed_def update_hvac_power_def)
  then have "heat_value (demand upd ?s1) = Inr (heat_rounded 0)"
    by (intro heat_value_finite py_eq_zero_value) simp_all
  then have c: "calculate_valve_position upd ?s1 = (Inr 60, refreshed upd ?s1)"
    by (simp add: calculate_heat [OF m] heat_rounded_low)
  have p: "fan_call fan (hvac_power_percent (hvac_power (refreshed upd ?s1)))
             = fan_turn_off_call fan"
    using z by (simp add: demand_def fan_call_def)
  have ids: "valve_entity_id s = Some valve" "hvac_mode s \<noteq> OFF" using a by simp_all
  show i: "(fst (async_turn_on hass upd s), service_calls (snd (async_turn_on hass upd s))) =
             issued hass (service_calls s)
               [set_valve_position_call valve 60, fan_turn_off_call fan]"
    using turn_on_active(1) [OF ids(1) assms ids(2) c, of hass] by (simp only: p)
  assume caught: "\<forall>history c e. hass history c = Some e \<longrightarrow> is_Exception e"
  have j: "(fst (async_turn_on hass upd s), service_calls (snd (async_turn_on hass upd s))) =
             (Inr (), service_calls s @ [set_valve_position_call valve 60, fan_turn_off_call fan])"
    using i by (simp only: issued_caught [OF caught])
  show "fst (async_turn_on hass upd s) = Inr ()"
    using j by simp
  show "service_calls (snd (async_turn_on hass upd s)) =
          service_calls s @ [set_valve_position_call valve 60, fan_turn_off_call fan]"
    using j by simp
qed

theorem fan_power_off_at_zero_witness:
  "fan_entity_id (example_state\<lparr>hvac_mode := HEAT\<rparr>) = Some ''fan.zone'' \<and>
   hvac_mode (example_state\<lparr>hvac_mode := HEAT\<rparr>) = HEAT \<and>
   temperatures_known (example_state\<lparr>hvac_mode := HEAT\<rparr>) \<and>
   valve_entity_id (example_state\<lparr>hvac_mode := HEAT\<rparr>) = Some ''valve.zone'' \<and>
   py_eq_zero (PyInt 0) \<and> \<not> py_eq_zero (PyInt 80) \<and>
   service_calls (snd (async_set_fan_speed reliable (PyInt 0) (example_state\<lparr>hvac_mode := HEAT\<rparr>)))
     = [fan_turn_off_call ''fan.zone''] \<and>
   service_calls (snd (async_set_fan_speed reliable (PyInt 80) (example_state\<lparr>hvac_mode := HEAT\<rparr>)))
     = [fan_set_percentage_call ''fan.zone'' (PyInt 80)] \<and>
   fst (async_turn_on reliable (fixed_demand (PyInt 0)) (example_state\<lparr>hvac_mode := HEAT\<rparr>))
     = Inr () \<and>
   service_calls
     (snd (async_turn_on reliable (fixed_demand (PyInt 0)) (example_state\<lparr>hvac_mode := HEAT\<rparr>)))
     = [set_valve_position_call ''valve.zone'' 60, fan_turn_off_call ''fan.zone'']"
  using fan_power_off_at_zero
      [where s = "example_state\<lparr>hvac_mode := HEAT\<rparr>" and fan = "''fan.zone''"
         and hass = reliable and speed = "PyInt 0" and upd = "fixed_demand (PyInt 0)"
         and valve = "''valve.zone''"]
    fan_power_off_at_zero
      [where s = "example_state\<lparr>hvac_mode := HEAT\<rparr>" and fan = "''fan.zone''"
         and hass = reliable and speed = "PyInt 80" and upd = "fixed_demand (PyInt 0)"
         and valve = "''valve.zone''"]
    example_heat
  by (simp add: example_state_def fixed_demand_def reliable_def)

section \<open>Turning on without a temperature\<close>

text \<open>
  C10 (as amended). In mode HEAT or COOL with a temperature missing and both
  identities present, turning on gives the same result for every demand source
  and leaves the power manager as it was: the demand is not refreshed. It makes
  the valve call with the OFF position 55 and then the fan call with the demand
  percent that was already there, the power-off call when that percent equals 0
  and the set-percentage call with that percent otherwise, stopping after the
  valve call only if that call raises something that is not an instance of
  \<^verbatim>\<open>Exception\<close>. So with a transport that raises only instances of
  \<^verbatim>\<open>Exception\<close> it returns normally, and the fan can be set to a nonzero
  percentage while the valve is driven to its off position.
\<close>

theorem turn_on_stale_demand:
  assumes "hvac_mode s = HEAT \<or> hvac_mode s = COOL"
      and "\<not> temperatures_known s"
      and "valve_entity_id s = Some valve" "fan_entity_id s = Some fan"
  shows "async_turn_on hass upd s = async_turn_on hass upd' s \<and>
         hvac_power (snd (async_turn_on hass upd s)) = hvac_power s \<and>
         (fst (async_turn_on hass upd s), service_calls (snd (async_turn_on hass upd s))) =
           issued hass (service_calls s)
             [set_valve_position_call valve 55,
              if py_eq_zero (hvac_power_percent (hvac_power s)) then fan_turn_off_call fan
              else fan_set_percentage_call fan (hvac_power_percent (hvac_power s))] \<and>
         ((\<forall>history c e. hass history c = Some e \<longrightarrow> is_Exception e) \<longrightarrow>
            fst (async_turn_on hass upd s) = Inr () \<and>
            service_calls (snd (async_turn_on hass upd s)) =
              service_calls s @
              [set_valve_position_call valve 55,
               if py_eq_zero (hvac_power_percent (hvac_power s)) then fan_turn_off_call fan
               else fan_set_percentage_call fan (hvac_power_percent (hvac_power s))])"
proof (intro conjI impI)
  let ?s1 = "write_log INFO ''%s. Setting valve position and fan speed for entities %s, %s''
               [ArgStr class_name, ArgId (Some valve), ArgId (Some fan)] s"
  let ?s2 = "write_log WARNING ''Temperature values not available, using default position'' [] ?s1"
  have k: "cur_temp (environment ?s1) = None \<or> attr (environment ?s1) (target_env_attr ?s1) = None"
    using assms(2) by (auto simp add: temperatures_known_def write_log_def target_env_attr_def)
  have m: "hvac_mode ?s1 = HEAT \<or> hvac_mode ?s1 = COOL"
    using assms(1) by (simp add: write_log_def)
  have c: "\<And>u. calculate_valve_position u ?s1 = (Inr 55, ?s2)"
    using m k by (auto simp add: calculate_valve_position_def OFF_POSITION_def)
  have ids: "valve_entity_id ?s1 = Some valve" "fan_entity_id ?s1 = Some fan"
    using assms(3,4) by (simp_all add: write_log_def)
  have "\<And>u u'. async_turn_on hass u s = async_turn_on hass u' s"
    using assms(3,4) by (simp add: async_turn_on_def Let_def ids c)
  then show "async_turn_on hass upd s = async_turn_on hass upd' s" .
  have off: "hvac_mode s \<noteq> OFF" using assms(1) by auto
  have p: "hvac_power ?s2 = hvac_power s" by (simp add: write_log_def)
  show "hvac_power (snd (async_turn_on hass upd s)) = hvac_power s"
    using turn_on_active(2) [OF assms(3,4) off c, of hass] by (simp only: p)
  show i: "(fst (async_turn_on hass upd s), service_calls (snd (async_turn_on hass upd s))) =
             issued hass (service_calls s)
               [set_valve_position_call valve 55,
                if py_eq_zero (hvac_power_percent (hvac_power s)) then fan_turn_off_call fan
                else fan_set_percentage_call fan (hvac_power_percent (hvac_power s))]"
    using turn_on_active(1) [OF assms(3,4) off c, of hass] by (simp only: p fan_call_def)
  assume caught: "\<forall>history c e. hass history c = Some e \<longrightarrow> is_Exception e"
  have j: "(fst (async_turn_on hass upd s), service_calls (snd (async_turn_on hass upd s))) =
             (Inr (),
              service_calls s @
              [set_valve_position_call valve 55,
               if py_eq_zero (hvac_power_percent (hvac_power s)) then fan_turn_off_call fan
               else fan_set_percentage_call fan (hvac_power_percent (hvac_power s))])"
    using i by (simp only: issued_caught [OF caught])
  show "fst (async_turn_on hass upd s) = Inr ()"
    using j by simp
  show "service_calls (snd (async_turn_on hass upd s)) =
          service_calls s @
          [set_valve_position_call valve 55,
           if py_eq_zero (hvac_power_percent (hvac_power s)) then fan_turn_off_call fan
           else fan_set_percentage_call fan (hvac_power_percent (hvac_power s))]"
    using j by simp
qed

theorem turn_on_stale_demand_witness:
  "(hvac_mode (example_state\<lparr>environment := no_environment\<rparr>) = HEAT \<or>
    hvac_mode (example_state\<lparr>environment := no_environment\<rparr>) = COOL) \<and>
   \<not> temperatures_known (example_state\<lparr>environment := no_environment\<rparr>) \<and>
   valve_entity_id (example_state\<lparr>environment := no_environment\<rparr>) = Some ''valve.zone'' \<and>
   fan_entity_id (example_state\<lparr>environment := no_environment\<rparr>) = Some ''fan.zone'' \<and>
   hvac_power_percent (hvac_power (example_state\<lparr>environment := no_environment\<rparr>)) = PyInt 80 \<and>
   fst (async_turn_on reliable (fixed_demand (PyInt 0))
          (example_state\<lparr>environment := no_environment\<rparr>)) = Inr () \<and>
   service_calls
     (snd (async_turn_on reliable (fixed_demand (PyInt 0))
        (example_state\<lparr>environment := no_environment\<rparr>)))
     = [set_valve_position_call ''valve.zone'' 55,
        fan_set_percentage_call ''fan.zone'' (PyInt 80)]"
proof -
  have h: "hvac_mode (example_state\<lparr>environment := no_environment\<rparr>) = HEAT \<or>
           hvac_mode (example_state\<lparr>environment := no_environment\<rparr>) = COOL"
    "\<not> temperatures_known (example_state\<lparr>environment := no_environment\<rparr>)"
    "valve_entity_id (example_state\<lparr>environment := no_environment\<rparr>) = Some ''valve.zone''"
    "fan_entity_id (example_state\<lparr>environment := no_environment\<rparr>) = Some ''fan.zone''"
    by (simp_all add: example_state_def temperatures_known_def no_environment_def)
  have caught: "\<forall>history c e. reliable history c = Some e \<longrightarrow> is_Exception e"
    by (simp add: reliable_def)
  from turn_on_stale_demand [OF h, of reliable "fixed_demand (PyInt 0)" "fixed_demand (PyInt 0)"]
  have "fst (async_turn_on reliable (fixed_demand (PyInt 0))
               (example_state\<lparr>environment := no_environment\<rparr>)) = Inr () \<and>
        service_calls
          (snd (async_turn_on reliable (fixed_demand (PyInt 0))
             (example_state\<lparr>environment := no_environment\<rparr>)))
          = service_calls (example_state\<lparr>environment := no_environment\<rparr>) @
            [set_valve_position_call ''valve.zone'' 55,
             if py_eq_zero
                  (hvac_power_percent (hvac_power (example_state\<lparr>environment := no_environment\<rparr>)))
             then fan_turn_off_call ''fan.zone''
             else fan_set_percentage_call ''fan.zone''
                    (hvac_power_percent
                       (hvac_power (example_state\<lparr>environment := no_environment\<rparr>)))]"
    using caught by blast
  then show ?thesis using h by (simp add: example_state_def)
qed

text \<open>
  The claim as stated covers every state with a temperature missing. When the fan
  identity is absent, turning on issues no call at all, so the valve is not
  commanded to 55. And with both identities present, when the valve call is
  cancelled the cancellation is raised and the fan is not commanded.
\<close>

theorem turn_on_stale_demand_counterexample:
  "hvac_mode (example_state\<lparr>hvac_mode := HEAT, fan_entity_id := None,
                environment := no_environment\<rparr>) = HEAT \<and>
   cur_temp (environment (example_state\<lparr>hvac_mode := HEAT, fan_entity_id := None,
                            environment := no_environment\<rparr>)) = None \<and>
   valve_entity_id (example_state\<lparr>hvac_mode := HEAT, fan_entity_id := None,
                      environment := no_environment\<rparr>) = Some ''valve.zone'' \<and>
   fst (async_turn_on reliable (fixed_demand (PyInt 0))
          (example_state\<lparr>hvac_mode := HEAT, fan_entity_id := None,
             environment := no_environment\<rparr>)) = Inr () \<and>
   service_calls
     (snd (async_turn_on reliable (fixed_demand (PyInt 0))
        (example_state\<lparr>hvac_mode := HEAT, fan_entity_id := None,
           environment := no_environment\<rparr>))) = [] \<and>
   fst (async_turn_on cancelling (fixed_demand (PyInt 0))
          (example_state\<lparr>hvac_mode := HEAT, environment := no_environment\<rparr>))
     = Inl CancelledError \<and>
   service_calls
     (snd (async_turn_on cancelling (fixed_demand (PyInt 0))
        (example_state\<lparr>hvac_mode := HEAT, environment := no_environment\<rparr>)))
     = [set_valve_position_call ''valve.zone'' 55]"
proof -
  let ?s = "example_state\<lparr>hvac_mode := HEAT, environment := no_environment\<rparr>"
  let ?s1 = "write_log INFO ''%s. Setting valve position and fan speed for entities %s, %s''
               [ArgStr class_name, ArgId (Some ''valve.zone''), ArgId (Some ''fan.zone'')] ?s"
  have ids: "valve_entity_id ?s = Some ''valve.zone''" "fan_entity_id ?s = Some ''fan.zone''"
    "hvac_mode ?s \<noteq> OFF"
    by (simp_all add: example_state_def)
  have c: "calculate_valve_position (fixed_demand (PyInt 0)) ?s1 =
             (Inr 55,
              write_log WARNING ''Temperature values not available, using default position'' []
                ?s1)"
    by (simp add: calculate_valve_position_def OFF_POSITION_def write_log_def no_environment_def)
  have "(fst (async_turn_on cancelling (fixed_demand (PyInt 0)) ?s),
         service_calls (snd (async_turn_on cancelling (fixed_demand (PyInt 0)) ?s)))
          = (Inl CancelledError, [set_valve_position_call ''valve.zone'' 55])"
    using turn_on_active(1) [OF ids c, of cancelling]
    by (simp add: propagated_def cancelling_def example_state_def)
  then show ?thesis
    by (simp add: async_turn_on_def write_log_def Let_def example_state_def no_environment_def)
qed

end
